theory Spec2Isabelle
  imports Main
begin

section \<open>Authentication and session lifecycle of the video-sharing backend\<close>

text \<open>
  The development embeds the session handlers of \<^verbatim>\<open>user.controllers.js\<close>
  (\<^verbatim>\<open>generateAccessAndRefreshToken\<close>, \<^verbatim>\<open>loginUser\<close>, \<^verbatim>\<open>logoutUser\<close>,
  \<^verbatim>\<open>refreshAccessToken\<close>), the middleware \<^verbatim>\<open>verifyJWT\<close>, the token methods of the user
  schema and the error middleware. The document store is a list of user documents in
  collection order, passed in and returned by every handler that writes to it. A handler
  that throws returns \<open>Inl\<close> of the error thrown; a handler that answers returns
  \<open>Inr\<close> of the response. The clock is a parameter: the number of seconds since the epoch
  at which the handler runs, which is the unit of the \<^verbatim>\<open>iat\<close> and \<^verbatim>\<open>exp\<close> claims.
  A failure of the store itself (connection lost) is outside the model.
\<close>

subsection \<open>Passwords and tokens\<close>

type_synonym ObjectId = nat
type_synonym time = nat

text \<open>
  A bcrypt hash is kept symbolically as the salt and the plaintext it was computed from.
  bcrypt reads the first 72 bytes of a password and no more, so
  \<^verbatim>\<open>bcrypt.compare\<close>, which recomputes the hash of the candidate under the stored salt,
  accepts every candidate that has these bytes in common with the plaintext. A string is
  the list of its bytes.
\<close>

datatype pwhash = Bcrypt nat string

definition bcrypt_key :: "string \<Rightarrow> string" where
  "bcrypt_key pw = take 72 pw"

fun bcrypt_compare :: "string \<Rightarrow> pwhash \<Rightarrow> bool" where
  "bcrypt_compare candidate (Bcrypt salt plain) = (bcrypt_key candidate = bcrypt_key plain)"

text \<open>
  The claims of a token: \<^verbatim>\<open>_id\<close>, and for an access token \<^verbatim>\<open>email\<close>,
  \<^verbatim>\<open>username\<close>, \<^verbatim>\<open>fullname\<close>. A field a token does not carry is \<open>None\<close>.
\<close>

record payload =
  p_id :: "ObjectId option"
  p_email :: "string option"
  p_username :: "string option"
  p_fullname :: "string option"

text \<open>
  A token string is either a well-formed JSON web token, kept symbolically as the secret
  that signed it, its claims, its \<^verbatim>\<open>iat\<close> and its \<^verbatim>\<open>exp\<close>, or any other string.
  HS256 signing is deterministic, so two tokens with the same four components are the same
  string, and tokens that differ in one component are different strings.
\<close>

datatype token = Jwt string payload time "time option" | Opaque string

datatype error =
    ApiError nat string
  | JsonWebTokenError
  | TokenExpiredError
  | Error string

text \<open>
  \<^verbatim>\<open>jwt.sign(payload, secret, {expiresIn})\<close> at time \<open>now\<close>. It throws (\<open>None\<close>) when the
  secret is missing or empty, or when \<^verbatim>\<open>expiresIn\<close> is missing or not a time span; the
  time span is given in seconds.
\<close>

definition jwt_sign :: "payload \<Rightarrow> string option \<Rightarrow> time option \<Rightarrow> time \<Rightarrow> token option" where
  "jwt_sign p secret expiresIn now =
     (case secret of
        None \<Rightarrow> None
      | Some s \<Rightarrow>
          if s = [] then None
          else (case expiresIn of
                  None \<Rightarrow> None
                | Some ttl \<Rightarrow> Some (Jwt s p now (Some (now + ttl)))))"

text \<open>
  \<^verbatim>\<open>jwt.verify(token, secret)\<close> at time \<open>now\<close>: a string that is no token, a missing
  secret and a signature made with another secret raise \<^verbatim>\<open>JsonWebTokenError\<close>; a token
  whose \<^verbatim>\<open>exp\<close> is not after \<open>now\<close> raises \<^verbatim>\<open>TokenExpiredError\<close>.
\<close>

fun jwt_verify :: "token \<Rightarrow> string option \<Rightarrow> time \<Rightarrow> error + payload" where
  "jwt_verify (Opaque s) secret now = Inl JsonWebTokenError"
| "jwt_verify (Jwt s p iat exp) secret now =
     (if secret = None \<or> secret = Some [] then Inl JsonWebTokenError
      else if secret \<noteq> Some s then Inl JsonWebTokenError
      else (case exp of
              None \<Rightarrow> Inr p
            | Some e \<Rightarrow> if e \<le> now then Inl TokenExpiredError else Inr p))"

subsection \<open>The user collection\<close>

text \<open>
  A user document. \<^verbatim>\<open>password\<close> and \<^verbatim>\<open>refreshToken\<close> are optional in the schema; a
  field that is unset, or left out by a projection, is \<open>None\<close>. The timestamps are left out.
\<close>

record user =
  user_id :: ObjectId
  username :: string
  email :: string
  fullname :: string
  avatar :: string
  coverImage :: "string option"
  watchHistory :: "ObjectId list"
  password :: "pwhash option"
  refreshToken :: "token option"

text \<open>\<^verbatim>\<open>User.findById(id)\<close>; an undefined id finds nothing.\<close>

definition findById :: "user list \<Rightarrow> ObjectId option \<Rightarrow> user option" where
  "findById db i = (case i of None \<Rightarrow> None | Some j \<Rightarrow> find (\<lambda>u. user_id u = j) db)"

text \<open>
  The schema declares \<^verbatim>\<open>username\<close> and \<^verbatim>\<open>email\<close> with \<^verbatim>\<open>lowercase: true, trim: true\<close>;
  the value of a query on these paths is cast the same way (ASCII letters and ASCII
  white space here).
\<close>

definition toLowerCase :: "string \<Rightarrow> string" where
  "toLowerCase =
     map (\<lambda>c. case map_of (zip ''ABCDEFGHIJKLMNOPQRSTUVWXYZ'' ''abcdefghijklmnopqrstuvwxyz'') c of
                 None \<Rightarrow> c | Some d \<Rightarrow> d)"

definition is_space :: "char \<Rightarrow> bool" where
  "is_space c = (c \<in> set [CHR '' '', CHR 0x09, CHR 0x0A, CHR 0x0B, CHR 0x0C, CHR 0x0D])"

definition trim :: "string \<Rightarrow> string" where
  "trim s = rev (dropWhile is_space (rev (dropWhile is_space s)))"

definition cast_path :: "string option \<Rightarrow> string option" where
  "cast_path v = map_option (\<lambda>s. trim (toLowerCase s)) v"

text \<open>
  \<^verbatim>\<open>User.findOne({$or: [{username}, {email}]})\<close>: the first document of the collection
  one of whose two paths equals the value asked for. An undefined value matches no
  document, since every document has both paths.
\<close>

definition findOne_or :: "user list \<Rightarrow> string option \<Rightarrow> string option \<Rightarrow> user option" where
  "findOne_or db uname mail =
     find (\<lambda>u. Some (username u) = cast_path uname \<or> Some (email u) = cast_path mail) db"

text \<open>\<^verbatim>\<open>.select("-password -refreshToken")\<close>: the document without the two fields.\<close>

definition select_without_password_refreshToken :: "user \<Rightarrow> user" where
  "select_without_password_refreshToken u = u\<lparr>password := None, refreshToken := None\<rparr>"

text \<open>An update of the first document with the given id; none if there is no such document.\<close>

fun updateById :: "ObjectId \<Rightarrow> (user \<Rightarrow> user) \<Rightarrow> user list \<Rightarrow> user list" where
  "updateById i f [] = []"
| "updateById i f (u # us) = (if user_id u = i then f u # us else u # updateById i f us)"

text \<open>
  \<^verbatim>\<open>user.refreshToken = t; await user.save({validateBeforeSave: false})\<close>: the one modified
  path is written to the stored document of that id. The pre-save hook returns at once, the
  password not being modified. Saving a document that is no longer stored throws (\<open>None\<close>).
\<close>

definition save_refreshToken :: "user list \<Rightarrow> user \<Rightarrow> token \<Rightarrow> user list option" where
  "save_refreshToken db u t =
     (case findById db (Some (user_id u)) of
        None \<Rightarrow> None
      | Some _ \<Rightarrow> Some (updateById (user_id u) (\<lambda>d. d\<lparr>refreshToken := Some t\<rparr>) db))"

subsection \<open>Methods of the user schema\<close>

text \<open>\<^verbatim>\<open>bcrypt.compare\<close> throws when the document has no hash.\<close>

definition isPasswordCorrect :: "user \<Rightarrow> string \<Rightarrow> error + bool" where
  "isPasswordCorrect u candidate =
     (case password u of
        None \<Rightarrow> Inl (Error ''data and hash arguments required'')
      | Some h \<Rightarrow> Inr (bcrypt_compare candidate h))"

record env =
  ACCESS_TOKEN_SECRET :: "string option"
  ACCESS_TOKEN_EXPIRY :: "time option"
  REFRESH_TOKEN_SECRET :: "string option"
  REFRESH_TOKEN_EXPIRY :: "time option"
  NODE_ENV :: "string option"

definition generateAccessToken :: "env \<Rightarrow> time \<Rightarrow> user \<Rightarrow> token option" where
  "generateAccessToken e now u =
     jwt_sign \<lparr>p_id = Some (user_id u), p_email = Some (email u),
               p_username = Some (username u), p_fullname = Some (fullname u)\<rparr>
       (ACCESS_TOKEN_SECRET e) (ACCESS_TOKEN_EXPIRY e) now"

definition generateRefreshToken :: "env \<Rightarrow> time \<Rightarrow> user \<Rightarrow> token option" where
  "generateRefreshToken e now u =
     jwt_sign \<lparr>p_id = Some (user_id u), p_email = None, p_username = None, p_fullname = None\<rparr>
       (REFRESH_TOKEN_SECRET e) (REFRESH_TOKEN_EXPIRY e) now"

subsection \<open>Requests and responses\<close>

text \<open>
  The parts of a request the handlers read. \<open>header_Authorization\<close> is the value of
  \<^verbatim>\<open>req.header("Authorization")?.replace("Bearer ", "")\<close>, \<open>None\<close> when the header is not
  sent. \<open>req_user\<close> is \<^verbatim>\<open>req.user\<close>, set by \<^verbatim>\<open>verifyJWT\<close>.
\<close>

record request =
  cookies_accessToken :: "token option"
  cookies_refreshToken :: "token option"
  header_Authorization :: "token option"
  body_email :: "string option"
  body_username :: "string option"
  body_password :: "string option"
  body_refreshAccessToken :: "token option"
  body_refreshToken :: "token option"
  req_user :: "user option"

text \<open>JavaScript truthiness of an optional string: undefined and the empty string are falsy.\<close>

definition truthy :: "string option \<Rightarrow> bool" where
  "truthy v = (v \<noteq> None \<and> v \<noteq> Some [])"

definition truthy_token :: "token option \<Rightarrow> bool" where
  "truthy_token v = (v \<noteq> None \<and> v \<noteq> Some (Opaque []))"

text \<open>\<^verbatim>\<open>a || b\<close> on two optional token strings.\<close>

definition js_or :: "token option \<Rightarrow> token option \<Rightarrow> token option" where
  "js_or a b = (if truthy_token a then a else b)"

record cookie_options =
  httpOnly :: bool
  secure :: bool

definition options :: "env \<Rightarrow> cookie_options" where
  "options e = \<lparr>httpOnly = True, secure = (NODE_ENV e = Some ''production'')\<rparr>"

datatype data = LoginData user token token | TokenData token token | NoData

record ApiResponse =
  statusCode :: nat
  data :: data
  message :: string
  success :: bool

text \<open>The constructor of \<^verbatim>\<open>ApiResponse\<close>.\<close>

definition new_ApiResponse :: "nat \<Rightarrow> data \<Rightarrow> string \<Rightarrow> ApiResponse" where
  "new_ApiResponse code d msg =
     \<lparr>statusCode = code, data = d, message = msg, success = (code < 400)\<rparr>"

record response =
  status :: nat
  cookie :: "(string \<times> token \<times> cookie_options) list"
  clearCookie :: "(string \<times> cookie_options) list"
  json :: ApiResponse

text \<open>
  Modelled from the spec: the class \<^verbatim>\<open>ApiError\<close> of \<^verbatim>\<open>utils/apiError.js\<close> is not among
  the sources; an instance is kept as the status code and the message it is constructed
  with, the two components of the error taxonomy. The error middleware answers an
  \<^verbatim>\<open>ApiError\<close> with its own status code; the other errors of this model carry no status
  code and are no Mongoose errors, so they are answered with 500.
\<close>

fun errorHandler :: "error \<Rightarrow> nat" where
  "errorHandler (ApiError code msg) = code"
| "errorHandler _ = 500"

text \<open>The status of the HTTP response a handler run ends with.\<close>

definition http_status :: "error + response \<Rightarrow> nat" where
  "http_status r = (case r of Inl e \<Rightarrow> errorHandler e | Inr res \<Rightarrow> status res)"

subsection \<open>Issuing a token pair\<close>

text \<open>
  The body of the \<^verbatim>\<open>try\<close> of \<^verbatim>\<open>generateAccessAndRefreshToken\<close>, in two parts: up to
  the call of \<^verbatim>\<open>save\<close>, and the save.
\<close>

definition generate_tokens :: "env \<Rightarrow> time \<Rightarrow> user list \<Rightarrow> ObjectId \<Rightarrow> error + user \<times> token \<times> token" where
  "generate_tokens e now db userId =
     (case findById db (Some userId) of
        None \<Rightarrow> Inl (ApiError 404 ''User not found during token generation'')
      | Some u \<Rightarrow>
          (case generateAccessToken e now u of
             None \<Rightarrow> Inl (Error ''secretOrPrivateKey must have a value'')
           | Some accessToken \<Rightarrow>
               (case generateRefreshToken e now u of
                  None \<Rightarrow> Inl (Error ''secretOrPrivateKey must have a value'')
                | Some newToken \<Rightarrow> Inr (u, accessToken, newToken))))"

definition generate_save :: "user list \<Rightarrow> user \<times> token \<times> token \<Rightarrow> (error + token \<times> token) \<times> user list" where
  "generate_save db r =
     (case r of (u, accessToken, newToken) \<Rightarrow>
        (case save_refreshToken db u newToken of
           None \<Rightarrow> (Inl (Error ''DocumentNotFoundError''), db)
         | Some db' \<Rightarrow> (Inr (accessToken, newToken), db')))"

definition generateAccessAndRefreshToken_try ::
  "env \<Rightarrow> time \<Rightarrow> user list \<Rightarrow> ObjectId \<Rightarrow> (error + token \<times> token) \<times> user list" where
  "generateAccessAndRefreshToken_try e now db userId =
     (case generate_tokens e now db userId of
        Inl err \<Rightarrow> (Inl err, db)
      | Inr r \<Rightarrow> generate_save db r)"

text \<open>The \<^verbatim>\<open>catch\<close> turns every error of the body into one 500.\<close>

definition generate_catch :: "(error + 'a) \<times> user list \<Rightarrow> (error + 'a) \<times> user list" where
  "generate_catch r =
     (case r of
        (Inl err, db) \<Rightarrow>
          (Inl (ApiError 500 ''Something went wrong while generating access and refresh tokens''), db)
      | (Inr v, db) \<Rightarrow> (Inr v, db))"

definition generateAccessAndRefreshToken ::
  "env \<Rightarrow> time \<Rightarrow> user list \<Rightarrow> ObjectId \<Rightarrow> (error + token \<times> token) \<times> user list" where
  "generateAccessAndRefreshToken e now db userId =
     generate_catch (generateAccessAndRefreshToken_try e now db userId)"

subsection \<open>Login\<close>

definition login_response :: "env \<Rightarrow> user \<Rightarrow> token \<Rightarrow> token \<Rightarrow> response" where
  "login_response e loggedInUser accessToken newToken =
     \<lparr>status = 200,
      cookie = [(''accessToken'', accessToken, options e), (''refreshToken'', newToken, options e)],
      clearCookie = [],
      json = new_ApiResponse 200 (LoginData loggedInUser accessToken newToken)
               ''User logged in successfully''\<rparr>"

definition loginUser :: "env \<Rightarrow> time \<Rightarrow> user list \<Rightarrow> request \<Rightarrow> (error + response) \<times> user list" where
  "loginUser e now db req =
     (if \<not> truthy (body_email req) \<or> \<not> truthy (body_password req)
      then (Inl (ApiError 400 ''Email is required''), db)
      else
        (case findOne_or db (body_username req) (body_email req) of
           None \<Rightarrow> (Inl (ApiError 404 ''User not found''), db)
         | Some u \<Rightarrow>
             (case isPasswordCorrect u (case body_password req of None \<Rightarrow> [] | Some pw \<Rightarrow> pw) of
                Inl err \<Rightarrow> (Inl err, db)
              | Inr isPasswordValid \<Rightarrow>
                  if \<not> isPasswordValid then (Inl (ApiError 400 ''Invalid user credentials''), db)
                  else
                    (case generateAccessAndRefreshToken e now db (user_id u) of
                       (Inl err, db') \<Rightarrow> (Inl err, db')
                     | (Inr (accessToken, newToken), db') \<Rightarrow>
                         (case map_option select_without_password_refreshToken
                                 (findById db' (Some (user_id u))) of
                            None \<Rightarrow> (Inl (ApiError 500 ''Could not login user''), db')
                          | Some loggedInUser \<Rightarrow>
                              (Inr (login_response e loggedInUser accessToken newToken), db'))))))"

subsection \<open>Logout\<close>

text \<open>
  \<^verbatim>\<open>User.findByIdAndUpdate(id, {$set: {refreshToken: v}})\<close>. Mongoose casts the update
  before it sends it and drops every key of \<^verbatim>\<open>$set\<close> whose value is undefined, so an
  undefined \<open>v\<close> sets nothing and the stored token stays; a defined one is written to
  the first document with the id.
\<close>

definition findByIdAndUpdate_set_refreshToken ::
  "ObjectId \<Rightarrow> token option \<Rightarrow> user list \<Rightarrow> user list" where
  "findByIdAndUpdate_set_refreshToken i v db =
     (case v of
        None \<Rightarrow> db
      | Some t \<Rightarrow> updateById i (\<lambda>d. d\<lparr>refreshToken := Some t\<rparr>) db)"

text \<open>
  \<^verbatim>\<open>logoutUser\<close> calls it with \<^verbatim>\<open>refreshToken: undefined\<close>, which its comment takes to
  remove the field, and answers with the response that clears both cookies. Without
  \<^verbatim>\<open>req.user\<close> the read of \<^verbatim>\<open>req.user._id\<close> throws.
\<close>

definition logout_response :: "env \<Rightarrow> response" where
  "logout_response e =
     \<lparr>status = 200, cookie = [],
      clearCookie = [(''accessToken'', options e), (''refreshToken'', options e)],
      json = new_ApiResponse 200 NoData ''User logged out successfully''\<rparr>"

definition logoutUser :: "env \<Rightarrow> user list \<Rightarrow> request \<Rightarrow> (error + response) \<times> user list" where
  "logoutUser e db req =
     (case req_user req of
        None \<Rightarrow> (Inl (Error ''TypeError''), db)
      | Some u \<Rightarrow>
          (Inr (logout_response e), findByIdAndUpdate_set_refreshToken (user_id u) None db))"

subsection \<open>Refresh\<close>

definition refresh_response :: "env \<Rightarrow> token \<Rightarrow> token \<Rightarrow> response" where
  "refresh_response e accessToken newRefreshToken =
     \<lparr>status = 200,
      cookie = [(''accessToken'', accessToken, options e),
                (''refreshToken'', newRefreshToken, options e)],
      clearCookie = [],
      json = new_ApiResponse 200 (TokenData accessToken newRefreshToken)
               ''Access token refreshed successfully''\<rparr>"

text \<open>
  The \<^verbatim>\<open>try\<close> of \<^verbatim>\<open>refreshAccessToken\<close> up to the comparison with the stored token: it
  yields the id of the user the tokens are then generated for.
\<close>

definition refresh_check :: "env \<Rightarrow> time \<Rightarrow> user list \<Rightarrow> token \<Rightarrow> error + ObjectId" where
  "refresh_check e now db incomingRefreshToken =
     (if \<not> truthy (REFRESH_TOKEN_SECRET e)
      then Inl (ApiError 500 ''JWT secret is not defined in environment variables'')
      else
        (case jwt_verify incomingRefreshToken (REFRESH_TOKEN_SECRET e) now of
           Inl err \<Rightarrow> Inl err
         | Inr decodedToken \<Rightarrow>
             (case findById db (p_id decodedToken) of
                None \<Rightarrow> Inl (ApiError 401 ''Invalid refresh token'')
              | Some u \<Rightarrow>
                  if Some incomingRefreshToken \<noteq> refreshToken u
                  then Inl (ApiError 401 ''Invalid refresh token'')
                  else Inr (user_id u))))"

definition refreshAccessToken_try ::
  "env \<Rightarrow> time \<Rightarrow> user list \<Rightarrow> token \<Rightarrow> (error + response) \<times> user list" where
  "refreshAccessToken_try e now db incomingRefreshToken =
     (case refresh_check e now db incomingRefreshToken of
        Inl err \<Rightarrow> (Inl err, db)
      | Inr userId \<Rightarrow>
          (case generateAccessAndRefreshToken e now db userId of
             (Inl err, db') \<Rightarrow> (Inl err, db')
           | (Inr (accessToken, newRefreshToken), db') \<Rightarrow>
               (Inr (refresh_response e accessToken newRefreshToken), db')))"

text \<open>The \<^verbatim>\<open>catch\<close> of \<^verbatim>\<open>refreshAccessToken\<close>: whatever was thrown, a 500 is thrown.\<close>

definition refresh_catch :: "(error + response) \<times> user list \<Rightarrow> (error + response) \<times> user list" where
  "refresh_catch r =
     (case r of
        (Inl err, db) \<Rightarrow>
          (Inl (ApiError 500 ''Something went wrong while refreshing access token''), db)
      | (Inr res, db) \<Rightarrow> (Inr res, db))"

definition refreshAccessToken ::
  "env \<Rightarrow> time \<Rightarrow> user list \<Rightarrow> request \<Rightarrow> (error + response) \<times> user list" where
  "refreshAccessToken e now db req =
     (case js_or (cookies_refreshToken req) (body_refreshAccessToken req) of
        None \<Rightarrow> (Inl (ApiError 401 ''Refresh token is required''), db)
      | Some incomingRefreshToken \<Rightarrow>
          if incomingRefreshToken = Opaque []
          then (Inl (ApiError 401 ''Refresh token is required''), db)
          else refresh_catch (refreshAccessToken_try e now db incomingRefreshToken))"

subsection \<open>The authentication middleware\<close>

definition verifyJWT_try :: "env \<Rightarrow> time \<Rightarrow> user list \<Rightarrow> token \<Rightarrow> error + user" where
  "verifyJWT_try e now db tok =
     (case jwt_verify tok (ACCESS_TOKEN_SECRET e) now of
        Inl err \<Rightarrow> Inl err
      | Inr decodedToken \<Rightarrow>
          (case map_option select_without_password_refreshToken
                  (findById db (p_id decodedToken)) of
             None \<Rightarrow> Inl (ApiError 401 ''User not found'')
           | Some u \<Rightarrow> Inr u))"

text \<open>
  \<^verbatim>\<open>verifyJWT\<close> returns the request it passes to the next handler, with \<^verbatim>\<open>req.user\<close>
  attached; its \<^verbatim>\<open>catch\<close> turns every error of the body into one 401.
\<close>

definition verifyJWT :: "env \<Rightarrow> time \<Rightarrow> user list \<Rightarrow> request \<Rightarrow> error + request" where
  "verifyJWT e now db req =
     (case js_or (cookies_accessToken req) (header_Authorization req) of
        None \<Rightarrow> Inl (ApiError 401 ''Not authorized, no token'')
      | Some tok \<Rightarrow>
          if tok = Opaque [] then Inl (ApiError 401 ''Not authorized, no token'')
          else
            (case verifyJWT_try e now db tok of
               Inl err \<Rightarrow> Inl (ApiError 401 ''Not authorized, token failed'')
             | Inr u \<Rightarrow> Inr (req\<lparr>req_user := Some u\<rparr>)))"

text \<open>The route \<^verbatim>\<open>/logout\<close>: \<^verbatim>\<open>verifyJWT\<close>, then \<^verbatim>\<open>logoutUser\<close>.\<close>

definition logout_route :: "env \<Rightarrow> time \<Rightarrow> user list \<Rightarrow> request \<Rightarrow> (error + response) \<times> user list" where
  "logout_route e now db req =
     (case verifyJWT e now db req of
        Inl err \<Rightarrow> (Inl err, db)
      | Inr req' \<Rightarrow> logoutUser e db req')"

subsection \<open>One refresh request as a sequence of atomic steps\<close>

text \<open>
  Node runs a handler without interruption between two \<^verbatim>\<open>await\<close>s, and may run other
  handlers while one waits for the store. \<^verbatim>\<open>refreshAccessToken\<close> waits three times:
  for \<^verbatim>\<open>findById\<close> in the handler, for \<^verbatim>\<open>findById\<close> in
  \<^verbatim>\<open>generateAccessAndRefreshToken\<close>, and for \<^verbatim>\<open>save\<close>. A request in flight is
  therefore in one of four states, and a step takes it from one to the next, reading or
  writing the store as it is at that moment.
\<close>

datatype refresh_pc =
    Received request
  | Checked ObjectId
  | Signed "user \<times> token \<times> token"
  | Responded "error + response"

definition refresh_step :: "env \<Rightarrow> time \<Rightarrow> user list \<Rightarrow> refresh_pc \<Rightarrow> refresh_pc \<times> user list" where
  "refresh_step e now db pc =
     (case pc of
        Received req \<Rightarrow>
          (case js_or (cookies_refreshToken req) (body_refreshAccessToken req) of
             None \<Rightarrow> (Responded (Inl (ApiError 401 ''Refresh token is required'')), db)
           | Some incomingRefreshToken \<Rightarrow>
               if incomingRefreshToken = Opaque []
               then (Responded (Inl (ApiError 401 ''Refresh token is required'')), db)
               else
                 (case refresh_check e now db incomingRefreshToken of
                    Inl err \<Rightarrow> (Responded (fst (refresh_catch (Inl err, db))), db)
                  | Inr userId \<Rightarrow> (Checked userId, db)))
      | Checked userId \<Rightarrow>
          (case generate_tokens e now db userId of
             Inl err \<Rightarrow> (Responded (fst (refresh_catch (generate_catch (Inl err, db)))), db)
           | Inr r \<Rightarrow> (Signed r, db))
      | Signed r \<Rightarrow>
          (case generate_catch (generate_save db r) of
             (Inl err, db') \<Rightarrow> (Responded (fst (refresh_catch (Inl err, db'))), db')
           | (Inr (accessToken, newRefreshToken), db') \<Rightarrow>
               (Responded (Inr (refresh_response e accessToken newRefreshToken)), db'))
      | Responded r \<Rightarrow> (Responded r, db))"

text \<open>
  Two requests in flight over one store. A schedule names, step by step, the request that
  runs next and the second at which it runs.
\<close>

datatype pid = A | B

type_synonym world = "user list \<times> refresh_pc \<times> refresh_pc"

definition sched_step :: "env \<Rightarrow> pid \<times> time \<Rightarrow> world \<Rightarrow> world" where
  "sched_step e x w =
     (case w of (db, a, b) \<Rightarrow>
        (case fst x of
           A \<Rightarrow> (case refresh_step e (snd x) db a of (a', db') \<Rightarrow> (db', a', b))
         | B \<Rightarrow> (case refresh_step e (snd x) db b of (b', db') \<Rightarrow> (db', a, b'))))"

fun run :: "env \<Rightarrow> (pid \<times> time) list \<Rightarrow> world \<Rightarrow> world" where
  "run e [] w = w"
| "run e (x # xs) w = run e xs (sched_step e x w)"

text \<open>The environment has what signing the two tokens needs.\<close>

definition can_sign :: "env \<Rightarrow> bool" where
  "can_sign e = (truthy (ACCESS_TOKEN_SECRET e) \<and> ACCESS_TOKEN_EXPIRY e \<noteq> None \<and>
                 truthy (REFRESH_TOKEN_SECRET e) \<and> REFRESH_TOKEN_EXPIRY e \<noteq> None)"

subsection \<open>A store with one user, and requests on it\<close>

definition env0 :: env where
  "env0 = \<lparr>ACCESS_TOKEN_SECRET = Some ''access-secret'', ACCESS_TOKEN_EXPIRY = Some 60,
            REFRESH_TOKEN_SECRET = Some ''refresh-secret'', REFRESH_TOKEN_EXPIRY = Some 600,
            NODE_ENV = Some ''development''\<rparr>"

definition alice :: user where
  "alice = \<lparr>user_id = 1, username = ''alice'', email = ''alice@example.com'',
            fullname = ''Alice'', avatar = ''alice.png'', coverImage = None, watchHistory = [],
            password = Some (Bcrypt 7 ''Secret123*''), refreshToken = None\<rparr>"

definition no_request :: request where
  "no_request = \<lparr>cookies_accessToken = None, cookies_refreshToken = None,
     header_Authorization = None, body_email = None, body_username = None,
     body_password = None, body_refreshAccessToken = None, body_refreshToken = None,
     req_user = None\<rparr>"

definition alice_access_payload :: payload where
  "alice_access_payload =
     \<lparr>p_id = Some 1, p_email = Some ''alice@example.com'', p_username = Some ''alice'',
      p_fullname = Some ''Alice''\<rparr>"

definition refresh_payload :: "ObjectId \<Rightarrow> payload" where
  "refresh_payload i = \<lparr>p_id = Some i, p_email = None, p_username = None, p_fullname = None\<rparr>"

text \<open>The tokens a login of alice at second 100 issues, and the store after it.\<close>

definition access100 :: token where
  "access100 = Jwt ''access-secret'' alice_access_payload 100 (Some 160)"

definition refresh100 :: token where
  "refresh100 = Jwt ''refresh-secret'' (refresh_payload 1) 100 (Some 700)"

definition db100 :: "user list" where
  "db100 = [alice\<lparr>refreshToken := Some refresh100\<rparr>]"

definition login_alice :: request where
  "login_alice =
     no_request\<lparr>body_email := Some ''alice@example.com'', body_password := Some ''Secret123*''\<rparr>"

definition present_refresh :: "token \<Rightarrow> request" where
  "present_refresh t = no_request\<lparr>cookies_refreshToken := Some t\<rparr>"

definition present_access :: "token \<Rightarrow> request" where
  "present_access t = no_request\<lparr>cookies_accessToken := Some t\<rparr>"

lemmas model_defs =
  loginUser_def truthy_def truthy_token_def js_or_def findOne_or_def cast_path_def trim_def
  toLowerCase_def is_space_def isPasswordCorrect_def bcrypt_key_def
  findByIdAndUpdate_set_refreshToken_def generateAccessAndRefreshToken_def
  generate_catch_def generateAccessAndRefreshToken_try_def generate_tokens_def
  generate_save_def save_refreshToken_def findById_def generateAccessToken_def
  generateRefreshToken_def jwt_sign_def select_without_password_refreshToken_def
  refreshAccessToken_def refreshAccessToken_try_def refresh_check_def refresh_catch_def
  verifyJWT_def verifyJWT_try_def logout_route_def logoutUser_def http_status_def
  refresh_step_def sched_step_def

lemmas example_defs =
  env0_def alice_def no_request_def alice_access_payload_def refresh_payload_def
  access100_def refresh100_def db100_def login_alice_def present_refresh_def
  present_access_def

section \<open>Properties\<close>

subsection \<open>The store\<close>

lemma findById_Some_id: "findById db (Some i) = Some u \<Longrightarrow> user_id u = i"
  by (auto simp: findById_def dest: find_Some_iff[THEN iffD1])

lemma findById_updateById_same:
  "(\<And>u. user_id (f u) = user_id u) \<Longrightarrow>
   findById (updateById i f db) (Some i) = map_option f (findById db (Some i))"
  by (induction db) (auto simp: findById_def)

lemma findById_updateById_other:
  "(\<And>u. user_id (f u) = user_id u) \<Longrightarrow> j \<noteq> i \<Longrightarrow>
   findById (updateById i f db) (Some j) = findById db (Some j)"
  by (induction db) (auto simp: findById_def)

lemma login_alice_at_100:
  "loginUser env0 100 [alice] login_alice =
     (Inr (login_response env0 (alice\<lparr>password := None\<rparr>) access100 refresh100), db100)"
  by (simp add: model_defs example_defs)

subsection \<open>Issuing a token pair\<close>

lemma generate_success:
  assumes "generateAccessAndRefreshToken e now db i = (Inr (a, r), db')"
  shows "\<exists>u. findById db (Some i) = Some u \<and> generateAccessToken e now u = Some a
           \<and> generateRefreshToken e now u = Some r
           \<and> db' = updateById i (\<lambda>d. d\<lparr>refreshToken := Some r\<rparr>) db"
  using assms
  by (auto simp: generateAccessAndRefreshToken_def generate_catch_def
        generateAccessAndRefreshToken_try_def generate_tokens_def generate_save_def
        save_refreshToken_def
      split: option.splits sum.splits prod.splits dest: findById_Some_id)

lemma generate_failure:
  assumes "generateAccessAndRefreshToken e now db i = (Inl err, db')"
  shows "db' = db \<and>
         err = ApiError 500 ''Something went wrong while generating access and refresh tokens''"
  using assms
  by (auto simp: generateAccessAndRefreshToken_def generate_catch_def
        generateAccessAndRefreshToken_try_def generate_tokens_def generate_save_def
        save_refreshToken_def
      split: option.splits sum.splits prod.splits)

lemma generate_succeeds:
  assumes "can_sign e" and "findById db (Some i) = Some u"
  shows "\<exists>a r. generateAccessToken e now u = Some a \<and> generateRefreshToken e now u = Some r \<and>
           generateAccessAndRefreshToken e now db i =
             (Inr (a, r), updateById i (\<lambda>d. d\<lparr>refreshToken := Some r\<rparr>) db)"
  using assms findById_Some_id[OF assms(2)]
  by (auto simp: can_sign_def truthy_def generateAccessAndRefreshToken_def generate_catch_def
        generateAccessAndRefreshToken_try_def generate_tokens_def generate_save_def
        save_refreshToken_def generateAccessToken_def generateRefreshToken_def jwt_sign_def
      split: option.splits)

lemma generate_total:
  "(\<exists>a r db'. generateAccessAndRefreshToken e now db i = (Inr (a, r), db')) \<or>
   generateAccessAndRefreshToken e now db i =
     (Inl (ApiError 500 ''Something went wrong while generating access and refresh tokens''), db)"
proof (cases "generateAccessAndRefreshToken e now db i")
  case (Pair x db')
  then show ?thesis
    by (cases x) (auto dest: generate_failure)
qed

subsection \<open>Login\<close>

text \<open>
  A candidate that shares its first 72 bytes with the plaintext of the hash is accepted,
  whatever follows them.
\<close>

lemma bcrypt_compare_first_72_bytes:
  "length p = 72 \<Longrightarrow> bcrypt_compare (p @ x) (Bcrypt salt (p @ y))"
  by (simp add: bcrypt_key_def)

lemma findOne_or_Some_findById:
  assumes "findOne_or db a b = Some u"
  shows "\<exists>u'. findById db (Some (user_id u)) = Some u'"
proof -
  from assms have "u \<in> set db"
    by (auto simp: findOne_or_def find_Some_iff)
  then have "find (\<lambda>d. user_id d = user_id u) db \<noteq> None"
    by (auto simp: find_None_iff)
  then show ?thesis by (auto simp: findById_def)
qed

text \<open>
  What \<open>loginUser\<close> does once the password check has passed.
\<close>

lemma login_after_password:
  assumes "truthy (body_email req)" and "truthy (body_password req)"
    and "findOne_or db (body_username req) (body_email req) = Some u"
    and "isPasswordCorrect u (case body_password req of None \<Rightarrow> [] | Some pw \<Rightarrow> pw) = Inr True"
  shows "loginUser e now db req =
     (case generateAccessAndRefreshToken e now db (user_id u) of
        (Inl err, db') \<Rightarrow> (Inl err, db')
      | (Inr (accessToken, newToken), db') \<Rightarrow>
          (case map_option select_without_password_refreshToken
                  (findById db' (Some (user_id u))) of
             None \<Rightarrow> (Inl (ApiError 500 ''Could not login user''), db')
           | Some loggedInUser \<Rightarrow>
               (Inr (login_response e loggedInUser accessToken newToken), db')))"
  using assms by (simp add: loginUser_def)

lemma login_success:
  assumes "loginUser e now db req = (Inr res, db')"
  shows "\<exists>u u' a r. truthy (body_email req) \<and> truthy (body_password req) \<and>
           findOne_or db (body_username req) (body_email req) = Some u \<and>
           findById db (Some (user_id u)) = Some u' \<and>
           generateAccessToken e now u' = Some a \<and> generateRefreshToken e now u' = Some r \<and>
           db' = updateById (user_id u) (\<lambda>d. d\<lparr>refreshToken := Some r\<rparr>) db \<and>
           res = login_response e (select_without_password_refreshToken (u'\<lparr>refreshToken := Some r\<rparr>)) a r"
proof -
  from assms have t: "truthy (body_email req)" "truthy (body_password req)"
    by (auto simp: loginUser_def split: if_splits)
  with assms obtain u where u: "findOne_or db (body_username req) (body_email req) = Some u"
    by (auto simp: loginUser_def split: option.splits)
  with assms t have pw: "isPasswordCorrect u (case body_password req of None \<Rightarrow> [] | Some pw \<Rightarrow> pw) = Inr True"
    by (auto simp: loginUser_def split: sum.splits if_splits)
  note eq = login_after_password[OF t u pw, of e now]
  obtain x db1 where g: "generateAccessAndRefreshToken e now db (user_id u) = (x, db1)"
    by (cases "generateAccessAndRefreshToken e now db (user_id u)")
  with assms eq obtain a r where x: "x = Inr (a, r)"
    by (cases x) auto
  from generate_success[OF g[unfolded x]] obtain u' where
    u': "findById db (Some (user_id u)) = Some u'" "generateAccessToken e now u' = Some a"
      "generateRefreshToken e now u' = Some r"
      "db1 = updateById (user_id u) (\<lambda>d. d\<lparr>refreshToken := Some r\<rparr>) db"
    by blast
  have f: "findById db1 (Some (user_id u)) = Some (u'\<lparr>refreshToken := Some r\<rparr>)"
    by (simp add: u' findById_updateById_same)
  from assms eq g x f have "res = login_response e (select_without_password_refreshToken (u'\<lparr>refreshToken := Some r\<rparr>)) a r" "db' = db1"
    by auto
  with t u u' show ?thesis by blast
qed

lemma login_failure:
  assumes "loginUser e now db req = (Inl err, db')"
  shows "db' = db \<and> err \<in> {ApiError 400 ''Email is required'', ApiError 404 ''User not found'',
           Error ''data and hash arguments required'', ApiError 400 ''Invalid user credentials'',
           ApiError 500 ''Something went wrong while generating access and refresh tokens''}"
proof (cases "truthy (body_email req) \<and> truthy (body_password req)")
  case False
  with assms show ?thesis by (auto simp: loginUser_def)
next
  case t: True
  show ?thesis
  proof (cases "findOne_or db (body_username req) (body_email req)")
    case None
    with assms t show ?thesis by (auto simp: loginUser_def)
  next
    case (Some u)
    show ?thesis
    proof (cases "isPasswordCorrect u (case body_password req of None \<Rightarrow> [] | Some pw \<Rightarrow> pw) = Inr True")
      case False
      with assms t Some show ?thesis
        by (auto simp: loginUser_def isPasswordCorrect_def split: option.splits)
    next
      case True
      note eq = login_after_password[OF conjunct1[OF t] conjunct2[OF t] Some True, of e now]
      from findOne_or_Some_findById[OF Some] obtain u' where
        u': "findById db (Some (user_id u)) = Some u'" by blast
      obtain x db1 where g: "generateAccessAndRefreshToken e now db (user_id u) = (x, db1)"
        by (cases "generateAccessAndRefreshToken e now db (user_id u)")
      show ?thesis
      proof (cases x)
        case (Inl err')
        with g assms eq generate_failure[of e now db "user_id u" err' db1] show ?thesis
          by auto
      next
        case (Inr p)
        obtain a r where p: "p = (a, r)" by (cases p)
        from generate_success[OF g[unfolded Inr p]] u' have
          "db1 = updateById (user_id u) (\<lambda>d. d\<lparr>refreshToken := Some r\<rparr>) db" by auto
        then have "findById db1 (Some (user_id u)) = Some (u'\<lparr>refreshToken := Some r\<rparr>)"
          by (simp add: u' findById_updateById_same)
        with assms eq g Inr p show ?thesis by auto
      qed
    qed
  qed
qed

text \<open>
  C5, as the code has it. A login whose lookup finds a user and whose password
  \<^verbatim>\<open>bcrypt.compare\<close> does not accept for that user returns the store as it was, so the
  refresh-token slot of every user keeps its value. When the user found has a hash, the
  answer has status 400, not 401; when moreover the email and the password are both
  non-empty, the error is the one of the password check,
  \<^verbatim>\<open>ApiError(400, "Invalid user credentials")\<close>.
\<close>

theorem login_wrong_password_400_store_unchanged:
  assumes "findOne_or db (body_username req) (body_email req) = Some u"
    and "body_password req = Some pw"
    and "isPasswordCorrect u pw \<noteq> Inr True"
  shows "snd (loginUser e now db req) = db \<and>
         (password u \<noteq> None \<longrightarrow>
            http_status (fst (loginUser e now db req)) = 400 \<and>
            (truthy (body_email req) \<and> pw \<noteq> [] \<longrightarrow>
               fst (loginUser e now db req) = Inl (ApiError 400 ''Invalid user credentials'')))"
proof (cases "password u")
  case None
  with assms show ?thesis
    by (simp add: loginUser_def isPasswordCorrect_def)
next
  case (Some h)
  with assms have "isPasswordCorrect u pw = Inr False"
    by (simp add: isPasswordCorrect_def)
  with assms(1,2) Some show ?thesis
    by (simp add: loginUser_def http_status_def truthy_def)
qed

text \<open>
  At the store left by alice's login, her email with the password \<open>guess\<close>.
\<close>

theorem login_wrong_password_400_store_unchanged_witness:
  "findOne_or db100 (body_username (login_alice\<lparr>body_password := Some ''guess''\<rparr>))
      (body_email (login_alice\<lparr>body_password := Some ''guess''\<rparr>)) = Some (hd db100) \<and>
   isPasswordCorrect (hd db100) ''guess'' \<noteq> Inr True \<and>
   password (hd db100) \<noteq> None \<and>
   truthy (body_email (login_alice\<lparr>body_password := Some ''guess''\<rparr>)) \<and>
   loginUser env0 130 db100 (login_alice\<lparr>body_password := Some ''guess''\<rparr>) =
     (Inl (ApiError 400 ''Invalid user credentials''), db100)"
proof -
  let ?req = "login_alice\<lparr>body_password := Some ''guess''\<rparr>"
  have found: "findOne_or db100 (body_username ?req) (body_email ?req) = Some (hd db100)"
    by (simp add: model_defs example_defs)
  have pw: "body_password ?req = Some ''guess''"
    by simp
  have wrong: "isPasswordCorrect (hd db100) ''guess'' \<noteq> Inr True"
    by (simp add: model_defs example_defs)
  have hash: "password (hd db100) \<noteq> None"
    by (simp add: example_defs)
  have mail: "truthy (body_email ?req)"
    by (simp add: model_defs example_defs)
  from login_wrong_password_400_store_unchanged[OF found pw wrong, of env0 130] hash mail
  have "loginUser env0 130 db100 ?req = (Inl (ApiError 400 ''Invalid user credentials''), db100)"
    by (simp add: prod_eq_iff)
  with found wrong hash mail show ?thesis by simp
qed

text \<open>
  C5 as the claim words it fails there: the answer has status 400, which is not 401.
\<close>

theorem login_wrong_password_not_401:
  "http_status (fst (loginUser env0 130 db100 (login_alice\<lparr>body_password := Some ''guess''\<rparr>))) = 400 \<and>
   http_status (fst (loginUser env0 130 db100 (login_alice\<lparr>body_password := Some ''guess''\<rparr>))) \<noteq> 401"
  by (simp add: model_defs example_defs)

text \<open>
  C6, as the code has it. Login first requires a non-empty email and a non-empty password
  and answers 400 otherwise, whatever the username. It then looks the user up by username
  or email. The answer is 404 exactly when both fields are there and no user matches either
  value. When the user found has the given password, and the environment has the secrets
  and expiries, the answer is 200.
\<close>

theorem login_requires_email_then_looks_up_by_either:
  "(\<not> truthy (body_email req) \<or> \<not> truthy (body_password req) \<longrightarrow>
      loginUser e now db req = (Inl (ApiError 400 ''Email is required''), db)) \<and>
   (http_status (fst (loginUser e now db req)) = 404 \<longleftrightarrow>
      truthy (body_email req) \<and> truthy (body_password req) \<and>
      findOne_or db (body_username req) (body_email req) = None) \<and>
   (truthy (body_email req) \<and> body_password req = Some pw \<and> pw \<noteq> [] \<and>
    findOne_or db (body_username req) (body_email req) = Some u \<and>
    isPasswordCorrect u pw = Inr True \<and> can_sign e \<longrightarrow>
      (\<exists>res db'. loginUser e now db req = (Inr res, db') \<and> status res = 200))"
proof (intro conjI impI)
  assume "\<not> truthy (body_email req) \<or> \<not> truthy (body_password req)"
  then show "loginUser e now db req = (Inl (ApiError 400 ''Email is required''), db)"
    by (auto simp: loginUser_def)
next
  show "http_status (fst (loginUser e now db req)) = 404 \<longleftrightarrow>
      truthy (body_email req) \<and> truthy (body_password req) \<and>
      findOne_or db (body_username req) (body_email req) = None"
  proof
    assume st: "http_status (fst (loginUser e now db req)) = 404"
    obtain x db' where r: "loginUser e now db req = (x, db')"
      by (cases "loginUser e now db req")
    have nf: "x = Inl (ApiError 404 ''User not found'')"
    proof (cases x)
      case (Inl err)
      with login_failure[OF r[unfolded Inl]] st r show ?thesis
        by (auto simp: http_status_def)
    next
      case (Inr res)
      with login_success[OF r[unfolded Inr]] st r show ?thesis
        by (auto simp: http_status_def login_response_def)
    qed
    show "truthy (body_email req) \<and> truthy (body_password req) \<and>
      findOne_or db (body_username req) (body_email req) = None"
    proof (rule ccontr)
      assume n: "\<not> ?thesis"
      show False
      proof (cases "truthy (body_email req) \<and> truthy (body_password req)")
        case False
        with r nf show False by (auto simp: loginUser_def)
      next
        case True
        with n obtain u where u: "findOne_or db (body_username req) (body_email req) = Some u"
          by auto
        show False
        proof (cases "isPasswordCorrect u (case body_password req of None \<Rightarrow> [] | Some pw \<Rightarrow> pw) = Inr True")
          case False
          with r nf True u show False
            by (auto simp: loginUser_def isPasswordCorrect_def split: option.splits)
        next
          case pw: True
          from login_after_password[OF conjunct1[OF True] conjunct2[OF True] u pw, of e now]
            r nf generate_total[of e now db "user_id u"]
          show False
            by (auto split: option.splits)
        qed
      qed
    qed
  next
    assume "truthy (body_email req) \<and> truthy (body_password req) \<and>
      findOne_or db (body_username req) (body_email req) = None"
    then show "http_status (fst (loginUser e now db req)) = 404"
      by (simp add: loginUser_def http_status_def)
  qed
next
  assume h: "truthy (body_email req) \<and> body_password req = Some pw \<and> pw \<noteq> [] \<and>
    findOne_or db (body_username req) (body_email req) = Some u \<and>
    isPasswordCorrect u pw = Inr True \<and> can_sign e"
  from findOne_or_Some_findById[of db _ _ u] h obtain u' where
    u': "findById db (Some (user_id u)) = Some u'"
    by blast
  from generate_succeeds[OF _ u', of e now] h obtain a r where
    g: "generateAccessAndRefreshToken e now db (user_id u) =
          (Inr (a, r), updateById (user_id u) (\<lambda>d. d\<lparr>refreshToken := Some r\<rparr>) db)"
    by blast
  have "findById (updateById (user_id u) (\<lambda>d. d\<lparr>refreshToken := Some r\<rparr>) db) (Some (user_id u))
          = Some (u'\<lparr>refreshToken := Some r\<rparr>)"
    by (simp add: findById_updateById_same u')
  with h g show "\<exists>res db'. loginUser e now db req = (Inr res, db') \<and> status res = 200"
    by (simp add: loginUser_def truthy_def login_response_def)
qed

text \<open>
  A request without email, a request with an unknown email, and alice's login.
\<close>

theorem login_requires_email_then_looks_up_by_either_witness:
  "\<not> truthy (body_email (no_request\<lparr>body_username := Some ''alice'',
                                     body_password := Some ''Secret123*''\<rparr>)) \<and>
   loginUser env0 100 [alice]
     (no_request\<lparr>body_username := Some ''alice'', body_password := Some ''Secret123*''\<rparr>) =
     (Inl (ApiError 400 ''Email is required''), [alice]) \<and>
   findOne_or [alice] (body_username (login_alice\<lparr>body_email := Some ''bob@example.com''\<rparr>))
     (body_email (login_alice\<lparr>body_email := Some ''bob@example.com''\<rparr>)) = None \<and>
   http_status (fst (loginUser env0 100 [alice]
     (login_alice\<lparr>body_email := Some ''bob@example.com''\<rparr>))) = 404 \<and>
   findOne_or [alice] (body_username login_alice) (body_email login_alice) = Some alice \<and>
   isPasswordCorrect alice ''Secret123*'' = Inr True \<and> can_sign env0 \<and>
   (\<exists>res db'. loginUser env0 100 [alice] login_alice = (Inr res, db') \<and> status res = 200)"
proof -
  let ?byname = "no_request\<lparr>body_username := Some ''alice'', body_password := Some ''Secret123*''\<rparr>"
  let ?bob = "login_alice\<lparr>body_email := Some ''bob@example.com''\<rparr>"
  have a: "\<not> truthy (body_email ?byname)"
    by (simp add: truthy_def no_request_def)
  from login_requires_email_then_looks_up_by_either[where req = ?byname and e = env0
      and now = 100 and db = "[alice]"] a
  have a': "loginUser env0 100 [alice] ?byname = (Inl (ApiError 400 ''Email is required''), [alice])"
    by blast
  have b: "truthy (body_email ?bob)" "truthy (body_password ?bob)"
    "findOne_or [alice] (body_username ?bob) (body_email ?bob) = None"
    by (simp_all add: model_defs example_defs)
  from login_requires_email_then_looks_up_by_either[where req = ?bob and e = env0
      and now = 100 and db = "[alice]"] b
  have b': "http_status (fst (loginUser env0 100 [alice] ?bob)) = 404"
    by blast
  have c: "truthy (body_email login_alice)" "body_password login_alice = Some ''Secret123*''"
    "''Secret123*'' \<noteq> []"
    "findOne_or [alice] (body_username login_alice) (body_email login_alice) = Some alice"
    "isPasswordCorrect alice ''Secret123*'' = Inr True" "can_sign env0"
    by (simp_all add: model_defs example_defs can_sign_def)
  from login_requires_email_then_looks_up_by_either[where req = login_alice and e = env0
      and now = 100 and db = "[alice]" and pw = "''Secret123*''" and u = alice] c
  have c': "\<exists>res db'. loginUser env0 100 [alice] login_alice = (Inr res, db') \<and> status res = 200"
    by blast
  from a a' b(3) b' c(4,5,6) c' show ?thesis by blast
qed

text \<open>
  C6 as the claim words it fails: alice's registered username with her password, and no
  email, does not log her in.
\<close>

theorem login_by_username_alone_rejected:
  "findOne_or [alice] (Some ''alice'') None = Some alice \<and>
   isPasswordCorrect alice ''Secret123*'' = Inr True \<and>
   loginUser env0 100 [alice]
     (no_request\<lparr>body_username := Some ''alice'', body_password := Some ''Secret123*''\<rparr>) =
     (Inl (ApiError 400 ''Email is required''), [alice])"
  by (simp add: model_defs example_defs)

subsection \<open>Authentication\<close>

lemma verifyJWT_success:
  assumes "verifyJWT e now db req = Inr req'"
  shows "\<exists>tok p u. js_or (cookies_accessToken req) (header_Authorization req) = Some tok \<and>
           jwt_verify tok (ACCESS_TOKEN_SECRET e) now = Inr p \<and>
           findById db (p_id p) = Some u \<and>
           req' = req\<lparr>req_user := Some (select_without_password_refreshToken u)\<rparr>"
  using assms
  by (auto simp: verifyJWT_def verifyJWT_try_def split: option.splits if_splits sum.splits)

lemma verifyJWT_failure:
  assumes "verifyJWT e now db req = Inl err"
  shows "errorHandler err = 401"
  using assms
  by (auto simp: verifyJWT_def verifyJWT_try_def split: option.splits if_splits sum.splits)

text \<open>
  C7, as the code has it. A login with a non-empty email and password, whose lookup finds
  a user whose password \<^verbatim>\<open>bcrypt.compare\<close> accepts, in an environment that has the
  secrets and expiries, is answered with status 200 and the pair signed at that second for
  the stored document of that id: the access token with the id, email, username and full
  name, the refresh token with the id. Both are set as cookies and returned in the body
  beside the profile, and the refresh token is written to the slot. Any request that
  presents this access token before its expiry, in a cookie or in the header, is passed on
  by \<open>verifyJWT\<close> with that profile, of the same id, attached.
\<close>

theorem login_token_authenticates_same_user:
  assumes "truthy (body_email req)" and "body_password req = Some pw" and "pw \<noteq> []"
    and "findOne_or db (body_username req) (body_email req) = Some u"
    and "isPasswordCorrect u pw = Inr True"
    and "ACCESS_TOKEN_SECRET e = Some sa" and "sa \<noteq> []" and "ACCESS_TOKEN_EXPIRY e = Some ttl"
    and "REFRESH_TOKEN_SECRET e = Some sr" and "sr \<noteq> []" and "REFRESH_TOKEN_EXPIRY e = Some rttl"
  shows "\<exists>u'. findById db (Some (user_id u)) = Some u' \<and> user_id u' = user_id u \<and>
           (let accessToken =
                  Jwt sa \<lparr>p_id = Some (user_id u'), p_email = Some (email u'),
                          p_username = Some (username u'), p_fullname = Some (fullname u')\<rparr>
                    now (Some (now + ttl));
                newToken =
                  Jwt sr \<lparr>p_id = Some (user_id u'), p_email = None, p_username = None,
                          p_fullname = None\<rparr>
                    now (Some (now + rttl));
                profile = u'\<lparr>password := None, refreshToken := None\<rparr>;
                db' = updateById (user_id u) (\<lambda>d. d\<lparr>refreshToken := Some newToken\<rparr>) db
            in loginUser e now db req =
                 (Inr \<lparr>status = 200,
                       cookie = [(''accessToken'', accessToken, options e),
                                 (''refreshToken'', newToken, options e)],
                       clearCookie = [],
                       json = \<lparr>statusCode = 200,
                               data = LoginData profile accessToken newToken,
                               message = ''User logged in successfully'',
                               success = True\<rparr>\<rparr>,
                  db') \<and>
               (\<forall>req' t. js_or (cookies_accessToken req') (header_Authorization req') =
                            Some accessToken \<and> t < now + ttl \<longrightarrow>
                  verifyJWT e t db' req' = Inr (req'\<lparr>req_user := Some profile\<rparr>) \<and>
                  user_id profile = user_id u))"
proof -
  from findOne_or_Some_findById[OF assms(4)] obtain u' where
    u': "findById db (Some (user_id u)) = Some u'"
    by blast
  then have id: "user_id u' = user_id u"
    by (rule findById_Some_id)
  let ?a = "Jwt sa \<lparr>p_id = Some (user_id u'), p_email = Some (email u'),
                     p_username = Some (username u'), p_fullname = Some (fullname u')\<rparr>
              now (Some (now + ttl))"
  let ?r = "Jwt sr \<lparr>p_id = Some (user_id u'), p_email = None, p_username = None,
                     p_fullname = None\<rparr>
              now (Some (now + rttl))"
  let ?profile = "u'\<lparr>password := None, refreshToken := None\<rparr>"
  let ?db' = "updateById (user_id u) (\<lambda>d. d\<lparr>refreshToken := Some ?r\<rparr>) db"
  have a: "generateAccessToken e now u' = Some ?a"
    using assms(6-8) by (simp add: generateAccessToken_def jwt_sign_def)
  have r: "generateRefreshToken e now u' = Some ?r"
    using assms(9-11) by (simp add: generateRefreshToken_def jwt_sign_def)
  have g: "generateAccessAndRefreshToken e now db (user_id u) = (Inr (?a, ?r), ?db')"
    using u' a r id
    by (simp add: generateAccessAndRefreshToken_def generate_catch_def
        generateAccessAndRefreshToken_try_def generate_tokens_def generate_save_def
        save_refreshToken_def)
  have f: "findById ?db' (Some (user_id u)) = Some (u'\<lparr>refreshToken := Some ?r\<rparr>)"
    by (simp add: findById_updateById_same u')
  have login: "loginUser e now db req =
     (Inr \<lparr>status = 200,
           cookie = [(''accessToken'', ?a, options e), (''refreshToken'', ?r, options e)],
           clearCookie = [],
           json = \<lparr>statusCode = 200, data = LoginData ?profile ?a ?r,
                   message = ''User logged in successfully'', success = True\<rparr>\<rparr>,
      ?db')"
    using assms(1-5) g f
    by (simp add: loginUser_def truthy_def login_response_def new_ApiResponse_def
        select_without_password_refreshToken_def)
  have auth: "verifyJWT e t ?db' req' = Inr (req'\<lparr>req_user := Some ?profile\<rparr>)"
    if "js_or (cookies_accessToken req') (header_Authorization req') = Some ?a"
      and "t < now + ttl" for req' t
    using that assms(6,7) id f
    by (simp add: verifyJWT_def verifyJWT_try_def select_without_password_refreshToken_def)
  have "user_id ?profile = user_id u"
    by (simp add: id)
  with u' id login auth show ?thesis
    unfolding Let_def by blast
qed

text \<open>Alice logs in at second 100 and presents the access token at second 159.\<close>

theorem login_token_authenticates_same_user_witness:
  "truthy (body_email login_alice) \<and>
   findOne_or [alice] (body_username login_alice) (body_email login_alice) = Some alice \<and>
   isPasswordCorrect alice ''Secret123*'' = Inr True \<and>
   loginUser env0 100 [alice] login_alice =
     (Inr \<lparr>status = 200,
           cookie = [(''accessToken'', access100, options env0),
                     (''refreshToken'', refresh100, options env0)],
           clearCookie = [],
           json = \<lparr>statusCode = 200,
                   data = LoginData (alice\<lparr>password := None\<rparr>) access100 refresh100,
                   message = ''User logged in successfully'', success = True\<rparr>\<rparr>,
      db100) \<and>
   js_or (cookies_accessToken (present_access access100))
         (header_Authorization (present_access access100)) = Some access100 \<and>
   verifyJWT env0 159 db100 (present_access access100) =
     Inr ((present_access access100)\<lparr>req_user := Some (alice\<lparr>password := None\<rparr>)\<rparr>)"
proof -
  have h: "truthy (body_email login_alice)" "body_password login_alice = Some ''Secret123*''"
    "''Secret123*'' \<noteq> []"
    "findOne_or [alice] (body_username login_alice) (body_email login_alice) = Some alice"
    "isPasswordCorrect alice ''Secret123*'' = Inr True"
    "ACCESS_TOKEN_SECRET env0 = Some ''access-secret''" "''access-secret'' \<noteq> []"
    "ACCESS_TOKEN_EXPIRY env0 = Some 60"
    "REFRESH_TOKEN_SECRET env0 = Some ''refresh-secret''" "''refresh-secret'' \<noteq> []"
    "REFRESH_TOKEN_EXPIRY env0 = Some 600"
    by (simp_all add: model_defs example_defs)
  have f: "findById [alice] (Some (user_id alice)) = Some alice"
    by (simp add: findById_def)
  have p: "js_or (cookies_accessToken (present_access access100))
         (header_Authorization (present_access access100)) = Some access100"
    by (simp add: model_defs example_defs)
  from login_token_authenticates_same_user[OF h, of 100] f
  have l: "loginUser env0 100 [alice] login_alice =
     (Inr \<lparr>status = 200,
           cookie = [(''accessToken'', access100, options env0),
                     (''refreshToken'', refresh100, options env0)],
           clearCookie = [],
           json = \<lparr>statusCode = 200,
                   data = LoginData (alice\<lparr>password := None\<rparr>) access100 refresh100,
                   message = ''User logged in successfully'', success = True\<rparr>\<rparr>,
      db100)"
    and v: "\<And>req' t. js_or (cookies_accessToken req') (header_Authorization req') = Some access100
              \<Longrightarrow> t < 160 \<Longrightarrow>
            verifyJWT env0 t db100 req' = Inr (req'\<lparr>req_user := Some (alice\<lparr>password := None\<rparr>)\<rparr>)"
    by (simp_all add: Let_def example_defs)
  from v[OF p, of 159] l p h(1,4,5) show ?thesis by simp
qed

text \<open>
  C7 as the claim words it fails: alice, who is registered, gives her username and her
  password, with an empty email. The answer is an error and carries no token.
\<close>

theorem login_with_username_and_password_returns_no_tokens:
  "findOne_or [alice] (Some ''alice'') (Some []) = Some alice \<and>
   isPasswordCorrect alice ''Secret123*'' = Inr True \<and>
   loginUser env0 100 [alice]
     (no_request\<lparr>body_username := Some ''alice'', body_email := Some [],
                  body_password := Some ''Secret123*''\<rparr>) =
     (Inl (ApiError 400 ''Email is required''), [alice])"
  by (simp add: model_defs example_defs)

text \<open>
  C8. A request whose access token has an expiry that is not after the current second is
  rejected by \<open>verifyJWT\<close> with \<^verbatim>\<open>ApiError(401, "Not authorized, token failed")\<close>,
  whatever secret signed the token, so also when the signature is valid; the error
  middleware answers it with status 401.
\<close>

theorem expired_access_token_rejected_401:
  assumes "js_or (cookies_accessToken req) (header_Authorization req) = Some (Jwt s p iat (Some ex))"
    and "ex \<le> now"
  shows "verifyJWT e now db req = Inl (ApiError 401 ''Not authorized, token failed'') \<and>
         errorHandler (ApiError 401 ''Not authorized, token failed'') = 401"
  using assms by (simp add: verifyJWT_def verifyJWT_try_def)

text \<open>
  Alice's access token, signed with the access secret, at the second of its expiry.
\<close>

theorem expired_access_token_rejected_401_witness:
  "js_or (cookies_accessToken (present_access access100))
         (header_Authorization (present_access access100)) =
     Some (Jwt ''access-secret'' alice_access_payload 100 (Some 160)) \<and>
   ACCESS_TOKEN_SECRET env0 = Some ''access-secret'' \<and> (160::nat) \<le> 160 \<and>
   verifyJWT env0 160 db100 (present_access access100) =
     Inl (ApiError 401 ''Not authorized, token failed'')"
proof -
  have h: "js_or (cookies_accessToken (present_access access100))
         (header_Authorization (present_access access100)) =
     Some (Jwt ''access-secret'' alice_access_payload 100 (Some 160))"
    by (simp add: model_defs example_defs)
  have le: "(160::nat) \<le> 160" by simp
  from expired_access_token_rejected_401[OF h le, of env0 db100] h show ?thesis
    by (simp add: env0_def)
qed

text \<open>
  C10. The profile in the response of a successful login and the user that
  \<open>verifyJWT\<close> attaches to the request have neither \<^verbatim>\<open>password\<close> nor
  \<^verbatim>\<open>refreshToken\<close>.
\<close>

theorem profiles_without_password_and_refreshToken:
  "(loginUser e now db req = (Inr res, db') \<longrightarrow>
      (\<exists>profile a r. data (json res) = LoginData profile a r \<and>
         password profile = None \<and> refreshToken profile = None)) \<and>
   (verifyJWT e now db req = Inr req' \<longrightarrow>
      (\<exists>v. req_user req' = Some v \<and> password v = None \<and> refreshToken v = None))"
proof (intro conjI impI)
  assume "loginUser e now db req = (Inr res, db')"
  from login_success[OF this]
  show "\<exists>profile a r. data (json res) = LoginData profile a r \<and>
         password profile = None \<and> refreshToken profile = None"
    by (auto simp: login_response_def new_ApiResponse_def select_without_password_refreshToken_def)
next
  assume "verifyJWT e now db req = Inr req'"
  from verifyJWT_success[OF this]
  show "\<exists>v. req_user req' = Some v \<and> password v = None \<and> refreshToken v = None"
    by (auto simp: select_without_password_refreshToken_def)
qed

text \<open>
  Alice's login and a request with her access token; the stored document has both fields.
\<close>

theorem profiles_without_password_and_refreshToken_witness:
  "loginUser env0 100 [alice] login_alice =
     (Inr (login_response env0 (alice\<lparr>password := None\<rparr>) access100 refresh100), db100) \<and>
   password (alice\<lparr>password := None\<rparr>) = None \<and> refreshToken (alice\<lparr>password := None\<rparr>) = None \<and>
   password (hd db100) \<noteq> None \<and> refreshToken (hd db100) \<noteq> None \<and>
   verifyJWT env0 130 db100 (present_access access100) =
     Inr ((present_access access100)\<lparr>req_user := Some (alice\<lparr>password := None\<rparr>)\<rparr>)"
proof -
  have l: "loginUser env0 100 [alice] login_alice =
     (Inr (login_response env0 (alice\<lparr>password := None\<rparr>) access100 refresh100), db100)"
    by (simp add: model_defs example_defs)
  have v: "verifyJWT env0 130 db100 (present_access access100) =
     Inr ((present_access access100)\<lparr>req_user := Some (alice\<lparr>password := None\<rparr>)\<rparr>)"
    by (simp add: model_defs example_defs)
  from profiles_without_password_and_refreshToken[of env0 100 "[alice]" login_alice
      "login_response env0 (alice\<lparr>password := None\<rparr>) access100 refresh100" db100
      "(present_access access100)\<lparr>req_user := Some (alice\<lparr>password := None\<rparr>)\<rparr>"] l
  have "password (alice\<lparr>password := None\<rparr>) = None \<and> refreshToken (alice\<lparr>password := None\<rparr>) = None"
    by (simp add: login_response_def new_ApiResponse_def)
  moreover have "password (hd db100) \<noteq> None \<and> refreshToken (hd db100) \<noteq> None"
    by (simp add: example_defs)
  ultimately show ?thesis using l v by simp
qed

subsection \<open>Refresh\<close>

lemma refresh_check_success:
  assumes "refresh_check e now db tok = Inr i"
  shows "\<exists>p u. truthy (REFRESH_TOKEN_SECRET e) \<and>
           jwt_verify tok (REFRESH_TOKEN_SECRET e) now = Inr p \<and> p_id p = Some i \<and>
           findById db (Some i) = Some u \<and> refreshToken u = Some tok"
proof -
  from assms obtain p u where
    h: "truthy (REFRESH_TOKEN_SECRET e)" "jwt_verify tok (REFRESH_TOKEN_SECRET e) now = Inr p"
      "findById db (p_id p) = Some u" "refreshToken u = Some tok" "i = user_id u"
    by (auto simp: refresh_check_def split: if_splits sum.splits option.splits)
  from h(3) obtain j where j: "p_id p = Some j"
    by (cases "p_id p") (auto simp: findById_def)
  with h(3) have "user_id u = j"
    by (auto dest: findById_Some_id)
  with h j show ?thesis by auto
qed

lemma refresh_success:
  assumes "refreshAccessToken e now db req = (Inr res, db')"
  shows "\<exists>tok p i u a r.
           js_or (cookies_refreshToken req) (body_refreshAccessToken req) = Some tok \<and>
           tok \<noteq> Opaque [] \<and>
           jwt_verify tok (REFRESH_TOKEN_SECRET e) now = Inr p \<and> p_id p = Some i \<and>
           findById db (Some i) = Some u \<and> refreshToken u = Some tok \<and>
           generateAccessToken e now u = Some a \<and> generateRefreshToken e now u = Some r \<and>
           db' = updateById i (\<lambda>d. d\<lparr>refreshToken := Some r\<rparr>) db \<and>
           res = refresh_response e a r"
proof -
  from assms obtain tok where
    tok: "js_or (cookies_refreshToken req) (body_refreshAccessToken req) = Some tok"
      "tok \<noteq> Opaque []"
    by (auto simp: refreshAccessToken_def split: option.splits if_splits)
  with assms have c: "refresh_catch (refreshAccessToken_try e now db tok) = (Inr res, db')"
    by (simp add: refreshAccessToken_def)
  then have t: "refreshAccessToken_try e now db tok = (Inr res, db')"
    by (auto simp: refresh_catch_def split: prod.splits sum.splits)
  then obtain i where i: "refresh_check e now db tok = Inr i"
    by (auto simp: refreshAccessToken_try_def split: sum.splits)
  with t obtain a r where
    g: "generateAccessAndRefreshToken e now db i = (Inr (a, r), db')" and
    res: "res = refresh_response e a r"
    by (auto simp: refreshAccessToken_try_def split: sum.splits prod.splits)
  from refresh_check_success[OF i] generate_success[OF g] tok res show ?thesis
    by fastforce
qed

lemma refresh_failure:
  assumes "refreshAccessToken e now db req = (Inl err, db')"
  shows "db' = db \<and>
         (err = ApiError 401 ''Refresh token is required'' \<or>
          err = ApiError 500 ''Something went wrong while refreshing access token'')"
proof (cases "js_or (cookies_refreshToken req) (body_refreshAccessToken req)")
  case None
  with assms show ?thesis by (simp add: refreshAccessToken_def)
next
  case (Some tok)
  show ?thesis
  proof (cases "tok = Opaque []")
    case True
    with Some assms show ?thesis by (simp add: refreshAccessToken_def)
  next
    case False
    with Some assms have c: "refresh_catch (refreshAccessToken_try e now db tok) = (Inl err, db')"
      by (simp add: refreshAccessToken_def)
    obtain x db1 where t: "refreshAccessToken_try e now db tok = (x, db1)"
      by (cases "refreshAccessToken_try e now db tok")
    with c have err: "err = ApiError 500 ''Something went wrong while refreshing access token''"
      and x: "\<exists>err'. x = Inl err'" and db1: "db1 = db'"
      by (auto simp: refresh_catch_def split: sum.splits)
    from x obtain err' where x': "x = Inl err'" by blast
    have "db1 = db"
    proof (cases "refresh_check e now db tok")
      case (Inl a)
      with t show ?thesis by (simp add: refreshAccessToken_try_def)
    next
      case (Inr i)
      obtain y db2 where g: "generateAccessAndRefreshToken e now db i = (y, db2)"
        by (cases "generateAccessAndRefreshToken e now db i")
      with t x' Inr obtain e2 where "y = Inl e2" "db2 = db1"
        by (cases y) (auto simp: refreshAccessToken_try_def)
      with g generate_failure[of e now db i e2 db2] show ?thesis by simp
    qed
    with err db1 show ?thesis by simp
  qed
qed


text \<open>
  C9. Without a \<^verbatim>\<open>refreshToken\<close> cookie (or with an empty one) the body field
  \<^verbatim>\<open>refreshToken\<close> is not read: the answer is the same whatever it holds. When the body
  field \<^verbatim>\<open>refreshAccessToken\<close> is missing too, the answer is
  \<^verbatim>\<open>ApiError(401, "Refresh token is required")\<close>, status 401.
\<close>

theorem refresh_token_read_from_cookie_or_refreshAccessToken_field:
  assumes "\<not> truthy_token (cookies_refreshToken req)"
  shows "refreshAccessToken e now db (req\<lparr>body_refreshToken := x\<rparr>) =
           refreshAccessToken e now db req \<and>
         (\<not> truthy_token (body_refreshAccessToken req) \<longrightarrow>
            refreshAccessToken e now db (req\<lparr>body_refreshToken := x\<rparr>) =
              (Inl (ApiError 401 ''Refresh token is required''), db) \<and>
            http_status (fst (refreshAccessToken e now db (req\<lparr>body_refreshToken := x\<rparr>))) = 401)"
  using assms
  by (auto simp: refreshAccessToken_def js_or_def truthy_token_def http_status_def
      split: option.splits)

text \<open>
  The stored token of alice in the body field \<^verbatim>\<open>refreshToken\<close> is answered with 401;
  the same token in the field \<^verbatim>\<open>refreshAccessToken\<close> is accepted.
\<close>

theorem refresh_token_read_from_cookie_or_refreshAccessToken_field_witness:
  "\<not> truthy_token (cookies_refreshToken no_request) \<and>
   \<not> truthy_token (body_refreshAccessToken no_request) \<and>
   refreshAccessToken env0 130 db100 (no_request\<lparr>body_refreshToken := Some refresh100\<rparr>) =
     (Inl (ApiError 401 ''Refresh token is required''), db100) \<and>
   http_status (fst (refreshAccessToken env0 130 db100
      (no_request\<lparr>body_refreshAccessToken := Some refresh100\<rparr>))) = 200"
proof -
  have h: "\<not> truthy_token (cookies_refreshToken no_request)"
    "\<not> truthy_token (body_refreshAccessToken no_request)"
    by (simp_all add: truthy_token_def no_request_def)
  have ok: "http_status (fst (refreshAccessToken env0 130 db100
      (no_request\<lparr>body_refreshAccessToken := Some refresh100\<rparr>))) = 200"
    by (simp add: model_defs example_defs refresh_response_def)
  from refresh_token_read_from_cookie_or_refreshAccessToken_field[OF h(1),
      of env0 130 db100 "Some refresh100"] h(2)
  have "refreshAccessToken env0 130 db100 (no_request\<lparr>body_refreshToken := Some refresh100\<rparr>) =
     (Inl (ApiError 401 ''Refresh token is required''), db100)"
    by blast
  with h ok show ?thesis by blast
qed

text \<open>
  C1 says that a refresh token that fails validation is answered with 401. The
  \<^verbatim>\<open>catch\<close> of the handler replaces every error of the \<^verbatim>\<open>try\<close>, also the two
  \<^verbatim>\<open>ApiError(401, "Invalid refresh token")\<close> thrown there, by a 500. At alice's store:
  her token at the second of its expiry, a string that is no token, a token signed with
  another secret, a token for a user that is not stored, and an earlier token of alice
  are each answered with status 500.
\<close>

theorem refresh_validation_failures_answer_500:
  "http_status (fst (refreshAccessToken env0 700 db100 (present_refresh refresh100))) = 500 \<and>
   http_status (fst (refreshAccessToken env0 130 db100 (present_refresh (Opaque ''not-a-token'')))) = 500 \<and>
   http_status (fst (refreshAccessToken env0 130 db100
      (present_refresh (Jwt ''other-secret'' (refresh_payload 1) 100 (Some 700))))) = 500 \<and>
   http_status (fst (refreshAccessToken env0 130 db100
      (present_refresh (Jwt ''refresh-secret'' (refresh_payload 2) 100 (Some 700))))) = 500 \<and>
   http_status (fst (refreshAccessToken env0 130 db100
      (present_refresh (Jwt ''refresh-secret'' (refresh_payload 1) 90 (Some 690))))) = 500"
  by (simp add: model_defs example_defs)


text \<open>
  The issued token differs from the presented one when the refresh runs at another second
  than the one the presented token was issued at.
\<close>

lemma refresh_issues_other_token:
  assumes "refreshAccessToken e t1 db req = (Inr (refresh_response e a r), db1)"
    and "js_or (cookies_refreshToken req) (body_refreshAccessToken req) = Some (Jwt s p iat ex)"
    and "iat \<noteq> t1"
  shows "r \<noteq> Jwt s p iat ex"
proof -
  from refresh_success[OF assms(1)] obtain u a' r' where
    "generateRefreshToken e t1 u = Some r'" "refresh_response e a r = refresh_response e a' r'"
    by auto
  then have "generateRefreshToken e t1 u = Some r"
    by (simp add: refresh_response_def)
  with assms(3) show ?thesis
    by (auto simp: generateRefreshToken_def jwt_sign_def split: option.splits if_splits)
qed



subsection \<open>Logout\<close>

lemma logout_leaves_store: "snd (logoutUser e db req) = db"
  by (simp add: logoutUser_def findByIdAndUpdate_set_refreshToken_def split: option.splits)

lemma logout_answers_200:
  "req_user req = Some v \<Longrightarrow> logoutUser e db req = (Inr (logout_response e), db) \<and>
     status (logout_response e) = 200 \<and>
     clearCookie (logout_response e) = [(''accessToken'', options e), (''refreshToken'', options e)]"
  by (simp add: logoutUser_def findByIdAndUpdate_set_refreshToken_def logout_response_def)

text \<open>A refresh that would have been accepted before a logout is accepted after it.\<close>

lemma refresh_after_logout:
  "refreshAccessToken e t (snd (logoutUser e db lreq)) req = refreshAccessToken e t db req"
  by (simp add: logout_leaves_store)

text \<open>
  C2 says that after a logout the slot is absent and a refresh with the cleared token
  fails as unauthorized. On the store that her login at second 100 leaves
  (\<open>login_alice_at_100\<close>), alice logs out with her access token at second 130: the
  answer is 200 and clears the cookies, but the update sets nothing, and the slot still
  holds her refresh token. Presented at second 140, the token is accepted with status 200
  and a new pair.
\<close>

theorem refresh_after_logout_accepted_200:
  "logout_route env0 130 db100 (present_access access100) = (Inr (logout_response env0), db100) \<and>
   map_option refreshToken (findById db100 (Some 1)) = Some (Some refresh100) \<and>
   refreshAccessToken env0 140 db100 (present_refresh refresh100) =
     (Inr (refresh_response env0 (Jwt ''access-secret'' alice_access_payload 140 (Some 200))
             (Jwt ''refresh-secret'' (refresh_payload 1) 140 (Some 740))),
      [alice\<lparr>refreshToken := Some (Jwt ''refresh-secret'' (refresh_payload 1) 140 (Some 740))\<rparr>]) \<and>
   http_status (fst (refreshAccessToken env0 140 db100 (present_refresh refresh100))) = 200"
  by (simp add: model_defs example_defs refresh_response_def)

subsection \<open>Two refreshes at once\<close>

text \<open>Run without another request in between, the three steps are the handler.\<close>

lemma refresh_run_alone:
  "run e [(A, t), (A, t), (A, t)] (db, Received req, b) =
     (snd (refreshAccessToken e t db req), Responded (fst (refreshAccessToken e t db req)), b)"
proof (cases "js_or (cookies_refreshToken req) (body_refreshAccessToken req)")
  case None
  then show ?thesis
    by (simp add: sched_step_def refresh_step_def refreshAccessToken_def)
next
  case (Some tok)
  show ?thesis
  proof (cases "tok = Opaque []")
    case True
    with Some show ?thesis
      by (simp add: sched_step_def refresh_step_def refreshAccessToken_def)
  next
    case ne: False
    show ?thesis
    proof (cases "refresh_check e t db tok")
      case (Inl err)
      with Some ne show ?thesis
        by (simp add: sched_step_def refresh_step_def refreshAccessToken_def
            refreshAccessToken_try_def refresh_catch_def)
    next
      case (Inr i)
      show ?thesis
      proof (cases "generate_tokens e t db i")
        case (Inl err)
        with Some ne Inr show ?thesis
          by (simp add: sched_step_def refresh_step_def refreshAccessToken_def
            refreshAccessToken_try_def refresh_catch_def generateAccessAndRefreshToken_def
            generateAccessAndRefreshToken_try_def generate_catch_def)
      next
        case r: (Inr x)
        obtain y db' where g: "generate_catch (generate_save db x) = (y, db')"
          by (cases "generate_catch (generate_save db x)")
        show ?thesis
        proof (cases y)
          case (Inl err)
          with Some ne Inr r g show ?thesis
            by (simp add: sched_step_def refresh_step_def refreshAccessToken_def
              refreshAccessToken_try_def refresh_catch_def generateAccessAndRefreshToken_def
              generateAccessAndRefreshToken_try_def)
        next
          case (Inr z)
          obtain a n where z: "z = (a, n)" by (cases z)
          with Some ne \<open>refresh_check e t db tok = Inr i\<close> r g Inr show ?thesis
            by (simp add: sched_step_def refresh_step_def refreshAccessToken_def
              refreshAccessToken_try_def refresh_catch_def generateAccessAndRefreshToken_def
              generateAccessAndRefreshToken_try_def)
        qed
      qed
    qed
  qed
qed







end
